theory Spec2Isabelle
  imports Main "HOL-Library.Word"
begin

section \<open>Machine types and failures\<close>

text \<open>
  The C++ types of the two headers: \<open>int\<close> is a 32-bit signed word,
  \<open>uint32_t\<close> a 32-bit word, \<open>TRefId = uint64_t\<close> a 64-bit word and
  \<open>TRefOff = int64_t\<close> a 64-bit word read in two's complement. Signed
  comparisons are \<open>\<le>s\<close> and \<open><s\<close>; \<open>+\<close> and \<open>-\<close> wrap around.
\<close>

type_synonym c_int = "32 word"
type_synonym uint32_t = "32 word"
type_synonym int64_t = "64 word"
type_synonym TRefId = "64 word"
type_synonym TRefOff = "64 word"

text \<open>
  The two ways a call can fail to return: \<open>throw 1\<close> in \<open>pe.h\<close> (the thrown
  integer is kept), and a failed \<open>assert\<close>, \<open>assert_eq\<close> or \<open>assert_gt\<close> in
  \<open>ref_coord.h\<close>.
\<close>

datatype error = Thrown int | AssertionFailed

section \<open>The paired-end policies, from \<open>pe.h\<close>\<close>

definition PE_POLICY_FF :: c_int where "PE_POLICY_FF = 1"
definition PE_POLICY_RR :: c_int where "PE_POLICY_RR = 2"
definition PE_POLICY_FR :: c_int where "PE_POLICY_FR = 3"
definition PE_POLICY_RF :: c_int where "PE_POLICY_RF = 4"

definition PE_ALS_NORMAL :: c_int where "PE_ALS_NORMAL = 1"
definition PE_ALS_OVERLAP :: c_int where "PE_ALS_OVERLAP = 2"
definition PE_ALS_CONTAIN :: c_int where "PE_ALS_CONTAIN = 3"
definition PE_ALS_DOVETAIL :: c_int where "PE_ALS_DOVETAIL = 4"
definition PE_ALS_DISCORD :: c_int where "PE_ALS_DISCORD = 5"

text \<open>
  \<open>pePolicyCompat\<close>: the \<open>switch\<close> over the policy, the \<open>default\<close> branch
  throwing the integer 1.
\<close>

definition pePolicyCompat :: "c_int \<Rightarrow> bool \<Rightarrow> bool \<Rightarrow> bool \<Rightarrow> error + bool" where
  "pePolicyCompat policy oneLeft oneWat twoWat =
     (if policy = PE_POLICY_FF then Inr (oneWat = twoWat \<and> oneWat = oneLeft)
      else if policy = PE_POLICY_RR then Inr (oneWat = twoWat \<and> oneWat \<noteq> oneLeft)
      else if policy = PE_POLICY_FR then Inr (oneWat \<noteq> twoWat \<and> oneWat = oneLeft)
      else if policy = PE_POLICY_RF then Inr (oneWat \<noteq> twoWat \<and> oneWat \<noteq> oneLeft)
      else Inl (Thrown 1))"

text \<open>
  \<open>pePolicyMateDir\<close> writes its two results through the references \<open>left\<close>
  and \<open>mfw\<close>; the model returns them as the pair \<open>(left, mfw)\<close>. On the
  \<open>default\<close> branch nothing is written and the integer 1 is thrown.
\<close>

definition pePolicyMateDir :: "c_int \<Rightarrow> bool \<Rightarrow> bool \<Rightarrow> error + (bool \<times> bool)" where
  "pePolicyMateDir policy is1 fw =
     (if policy = PE_POLICY_FF then Inr (is1 \<noteq> fw, fw)
      else if policy = PE_POLICY_RR then Inr (is1 = fw, fw)
      else if policy = PE_POLICY_FR then Inr (\<not> fw, \<not> fw)
      else if policy = PE_POLICY_RF then Inr (fw, \<not> fw)
      else Inl (Thrown 1))"

text \<open>
  The fields of \<open>PairedEndPolicy\<close>, in the order of their declaration. A name cannot
  end in an underscore here, so the member \<open>pol_\<close> is the field \<open>m_pol\<close>, and so on.
\<close>

record PairedEndPolicy =
  m_local :: bool
  m_pol :: c_int
  m_dovetailOk :: bool
  m_containOk :: bool
  m_olapOk :: bool
  m_expandToFit :: bool
  m_maxfrag :: uint32_t
  m_minfrag :: uint32_t

text \<open>
  \<open>init\<close> and \<open>reset\<close>; the constructor with eight arguments is \<open>init\<close> and the
  default constructor is \<open>reset\<close>.
\<close>

definition PairedEndPolicy_init :: "c_int \<Rightarrow> uint32_t \<Rightarrow> uint32_t \<Rightarrow> bool \<Rightarrow> bool \<Rightarrow> bool \<Rightarrow> bool \<Rightarrow> bool
    \<Rightarrow> PairedEndPolicy" where
  "PairedEndPolicy_init pol maxfrag minfrag local dovetailOk containOk olapOk expandToFit =
     \<lparr> m_local = local, m_pol = pol, m_dovetailOk = dovetailOk, m_containOk = containOk,
       m_olapOk = olapOk, m_expandToFit = expandToFit, m_maxfrag = maxfrag, m_minfrag = minfrag \<rparr>"

definition PairedEndPolicy_reset :: PairedEndPolicy where
  "PairedEndPolicy_reset = PairedEndPolicy_init (- 1) 0xffffffff 0xffffffff False False False False False"

definition policy :: "PairedEndPolicy \<Rightarrow> c_int" where
  "policy p = m_pol p"

definition maxFragLen :: "PairedEndPolicy \<Rightarrow> uint32_t" where
  "maxFragLen p = m_maxfrag p"

definition minFragLen :: "PairedEndPolicy \<Rightarrow> uint32_t" where
  "minFragLen p = m_minfrag p"

text \<open>
  Modelled from the spec: the assertion macros \<open>assert\<close>, \<open>assert_eq\<close> and
  \<open>assert_gt\<close>, whose header \<open>assert_helpers.h\<close> is not among the sources. The spec
  says that contract violations are "checked via assertions in debug builds", so whether
  assertions are compiled in is the parameter \<open>asserts\<close>: when it is off the condition is
  not evaluated at all; when it is on, the condition is evaluated (and may itself fail), and
  a false condition stops the program.
\<close>

definition c_assert :: "bool \<Rightarrow> error + bool \<Rightarrow> error + 'a \<Rightarrow> error + 'a" where
  "c_assert asserts cond rest =
     (if asserts
      then (case cond of
              Inl e \<Rightarrow> Inl e
            | Inr b \<Rightarrow> if b then rest else Inl AssertionFailed)
      else rest)"

section \<open>Coord, from \<open>ref_coord.h\<close>\<close>

text \<open>\<open>std::numeric_limits<TRefId>::max()\<close> and \<open>std::numeric_limits<TRefOff>::max()\<close>.\<close>

definition TRefId_max :: TRefId where "TRefId_max = 0xffffffffffffffff"
definition TRefOff_max :: TRefOff where "TRefOff_max = 0x7fffffffffffffff"

text \<open>\<open>std::min\<close> and \<open>std::max\<close> at \<open>int64_t\<close>: the comparison is signed.\<close>

definition std_min :: "int64_t \<Rightarrow> int64_t \<Rightarrow> int64_t" where
  "std_min a b = (if b <s a then b else a)"

definition std_max :: "int64_t \<Rightarrow> int64_t \<Rightarrow> int64_t" where
  "std_max a b = (if a <s b then b else a)"

record Coord =
  m_ref :: TRefId
  m_off :: TRefOff
  m_orient :: c_int

text \<open>
  \<open>init\<close> and \<open>invalidate\<close>; the constructor \<open>Coord(rf, of, fw)\<close> is \<open>init\<close> and
  the default constructor is \<open>invalidate\<close>. (\<open>of\<close> is a keyword here, hence \<open>of'\<close>;
  the argument \<open>o\<close> of the operators is \<open>o'\<close> for the same reason.)
\<close>

definition Coord_init :: "TRefId \<Rightarrow> TRefOff \<Rightarrow> bool \<Rightarrow> Coord" where
  "Coord_init rf of' fw = \<lparr> m_ref = rf, m_off = of', m_orient = (if fw then 1 else 0) \<rparr>"

definition Coord_invalidate :: Coord where
  "Coord_invalidate = \<lparr> m_ref = TRefId_max, m_off = TRefOff_max, m_orient = - 1 \<rparr>"

text \<open>
  \<open>Coord::valid\<close>: inside the \<open>if\<close>, the assertion on the orientation, then
  \<open>return true\<close>; otherwise \<open>return false\<close>.
\<close>

definition Coord_valid :: "bool \<Rightarrow> Coord \<Rightarrow> error + bool" where
  "Coord_valid asserts c =
     (if m_ref c \<noteq> TRefId_max \<and> m_off c \<noteq> TRefOff_max
      then c_assert asserts (Inr (m_orient c = 0 \<or> m_orient c = 1)) (Inr True)
      else Inr False)"

definition Coord_fw :: "bool \<Rightarrow> Coord \<Rightarrow> error + bool" where
  "Coord_fw asserts c =
     c_assert asserts (Coord_valid asserts c)
       (c_assert asserts (Inr (m_orient c = 0 \<or> m_orient c = 1))
          (Inr (m_orient c = 1)))"

text \<open>
  \<open>operator==\<close>: \<open>&&\<close> evaluates \<open>fw() == o.fw()\<close> only when the references and the
  offsets are equal.
\<close>

definition Coord_eq :: "bool \<Rightarrow> Coord \<Rightarrow> Coord \<Rightarrow> error + bool" where
  "Coord_eq asserts c o' =
     c_assert asserts (Coord_valid asserts c)
       (c_assert asserts (Coord_valid asserts o')
          (if m_ref c = m_ref o' \<and> m_off c = m_off o'
           then (case Coord_fw asserts c of
                   Inl e \<Rightarrow> Inl e
                 | Inr f \<Rightarrow> (case Coord_fw asserts o' of
                               Inl e \<Rightarrow> Inl e
                             | Inr g \<Rightarrow> Inr (f = g)))
           else Inr False))"

text \<open>
  \<open>operator<\<close> and \<open>operator>\<close>: \<open>ref_\<close> is compared unsigned, \<open>off_\<close> and
  \<open>orient_\<close> signed.
\<close>

definition Coord_less :: "bool \<Rightarrow> Coord \<Rightarrow> Coord \<Rightarrow> error + bool" where
  "Coord_less asserts c o' =
     c_assert asserts (Coord_valid asserts c)
       (c_assert asserts (Coord_valid asserts o')
          (if m_ref c < m_ref o' then Inr True
           else if m_ref c > m_ref o' then Inr False
           else if m_off c <s m_off o' then Inr True
           else if m_off o' <s m_off c then Inr False
           else if m_orient c <s m_orient o' then Inr True
           else Inr False))"

definition Coord_greater :: "bool \<Rightarrow> Coord \<Rightarrow> Coord \<Rightarrow> error + bool" where
  "Coord_greater asserts c o' =
     c_assert asserts (Coord_valid asserts c)
       (c_assert asserts (Coord_valid asserts o')
          (if m_ref c > m_ref o' then Inr True
           else if m_ref c < m_ref o' then Inr False
           else if m_off o' <s m_off c then Inr True
           else if m_off c <s m_off o' then Inr False
           else if m_orient o' <s m_orient c then Inr True
           else Inr False))"

definition Coord_repOk :: "bool \<Rightarrow> Coord \<Rightarrow> error + bool" where
  "Coord_repOk asserts c =
     (if m_ref c \<noteq> TRefId_max \<and> m_off c \<noteq> TRefOff_max
      then c_assert asserts (Inr (m_orient c = 0 \<or> m_orient c = 1)) (Inr True)
      else Inr True)"

text \<open>\<open>Coord::within\<close>: \<open>off_ + len\<close> is an \<open>int64_t\<close> addition.\<close>

definition Coord_within :: "Coord \<Rightarrow> int64_t \<Rightarrow> int64_t \<Rightarrow> int64_t \<Rightarrow> bool" where
  "Coord_within c len inbegin inend = (inbegin \<le>s m_off c \<and> m_off c + len \<le>s inend)"

definition Coord_ref :: "Coord \<Rightarrow> TRefId" where
  "Coord_ref c = m_ref c"

definition Coord_off :: "Coord \<Rightarrow> TRefOff" where
  "Coord_off c = m_off c"

section \<open>Interval, from \<open>ref_coord.h\<close>\<close>

record Interval =
  m_upstream :: Coord
  m_len :: TRefOff

definition Interval_init :: "Coord \<Rightarrow> TRefOff \<Rightarrow> Interval" where
  "Interval_init upstream len = \<lparr> m_upstream = upstream, m_len = len \<rparr>"

definition Interval_invalidate :: Interval where
  "Interval_invalidate = \<lparr> m_upstream = Coord_invalidate, m_len = 0 \<rparr>"

text \<open>
  The three constructors: \<open>Interval()\<close>, \<open>Interval(upstream, len)\<close> and
  \<open>Interval(id1, id2, off1, off2)\<close>. Only the last can fail, at \<open>assert_eq(id1, id2)\<close>.
\<close>

definition Interval_default :: Interval where
  "Interval_default = Interval_invalidate"

definition Interval_of_coord :: "Coord \<Rightarrow> TRefOff \<Rightarrow> Interval" where
  "Interval_of_coord upstream len = Interval_init upstream len"

definition Interval_of_offsets ::
    "bool \<Rightarrow> TRefId \<Rightarrow> TRefId \<Rightarrow> TRefOff \<Rightarrow> TRefOff \<Rightarrow> error + Interval" where
  "Interval_of_offsets asserts id1 id2 off1 off2 =
     c_assert asserts (Inr (id1 = id2))
       (let upstream = std_min off1 off2;
            dnstream = std_max off1 off2;
            c = Coord_init id1 upstream True
        in Inr (Interval_init c (dnstream - upstream)))"

text \<open>
  \<open>Interval::valid\<close>: \<open>upstream_.valid()\<close> decides the result; on the true branch
  \<open>assert_gt(len_, 0)\<close> comes before \<open>return true\<close>.
\<close>

definition Interval_valid :: "bool \<Rightarrow> Interval \<Rightarrow> error + bool" where
  "Interval_valid asserts iv =
     (case Coord_valid asserts (m_upstream iv) of
        Inl e \<Rightarrow> Inl e
      | Inr v \<Rightarrow> if v then c_assert asserts (Inr (0 <s m_len iv)) (Inr True)
                 else Inr False)"

text \<open>
  \<open>Interval::operator==\<close>, \<open>operator<\<close> and \<open>operator>\<close>, on the comparisons of
  the upstream Coords; \<open>&&\<close> compares the lengths only when the Coords are equal.
\<close>

definition Interval_eq :: "bool \<Rightarrow> Interval \<Rightarrow> Interval \<Rightarrow> error + bool" where
  "Interval_eq asserts iv o' =
     (case Coord_eq asserts (m_upstream iv) (m_upstream o') of
        Inl e \<Rightarrow> Inl e
      | Inr b \<Rightarrow> Inr (b \<and> m_len iv = m_len o'))"

definition Interval_less :: "bool \<Rightarrow> Interval \<Rightarrow> Interval \<Rightarrow> error + bool" where
  "Interval_less asserts iv o' =
     (case Coord_less asserts (m_upstream iv) (m_upstream o') of
        Inl e \<Rightarrow> Inl e
      | Inr lt \<Rightarrow>
          if lt then Inr True
          else (case Coord_greater asserts (m_upstream iv) (m_upstream o') of
                  Inl e \<Rightarrow> Inl e
                | Inr gt \<Rightarrow> if gt then Inr False else Inr (m_len iv <s m_len o')))"

definition Interval_greater :: "bool \<Rightarrow> Interval \<Rightarrow> Interval \<Rightarrow> error + bool" where
  "Interval_greater asserts iv o' =
     (case Coord_greater asserts (m_upstream iv) (m_upstream o') of
        Inl e \<Rightarrow> Inl e
      | Inr gt \<Rightarrow>
          if gt then Inr True
          else (case Coord_less asserts (m_upstream iv) (m_upstream o') of
                  Inl e \<Rightarrow> Inl e
                | Inr lt \<Rightarrow> if lt then Inr False else Inr (m_len o' <s m_len iv)))"

definition Interval_upstream :: "Interval \<Rightarrow> Coord" where
  "Interval_upstream iv = m_upstream iv"

definition Interval_len :: "Interval \<Rightarrow> TRefOff" where
  "Interval_len iv = m_len iv"

section \<open>Pair classification\<close>

text \<open>
  Modelled from the spec: the body of \<open>PairedEndPolicy::peClassifyPair\<close>, which
  \<open>pe.h\<close> declares (with these argument types) and whose definition is not among the
  sources. The spec's section on pair shape classification gives three steps, kept in
  their order below; the offsets and lengths are read as integers, as the spec computes
  with them.
\<close>

text \<open>
  Modelled from the spec: "begin = min(offset1, offset2), end = max(offset1+length1,
  offset2+length2), fragLen = end - begin".
\<close>

definition fragLen :: "int64_t \<Rightarrow> uint32_t \<Rightarrow> int64_t \<Rightarrow> uint32_t \<Rightarrow> int" where
  "fragLen off1 len1 off2 len2 =
     max (sint off1 + uint len1) (sint off2 + uint len2) - min (sint off1) (sint off2)"

text \<open>
  Modelled from the spec: "Effective maximum = max(configured maxFragLen, length1,
  length2) if expandToFit, else configured maxFragLen".
\<close>

definition effectiveMax :: "PairedEndPolicy \<Rightarrow> uint32_t \<Rightarrow> uint32_t \<Rightarrow> int" where
  "effectiveMax p len1 len2 =
     (if m_expandToFit p then max (uint (m_maxfrag p)) (max (uint len1) (uint len2))
      else uint (m_maxfrag p))"

text \<open>
  Modelled from the spec: the strand patterns a policy accepts, "same-strand for FF/RR,
  opposite-strand for FR/RF".
\<close>

definition strandsAccepted :: "c_int \<Rightarrow> bool \<Rightarrow> bool \<Rightarrow> bool" where
  "strandsAccepted pol fw1 fw2 =
     (if pol = PE_POLICY_FF \<or> pol = PE_POLICY_RR then fw1 = fw2 else fw1 \<noteq> fw2)"

text \<open>
  Modelled from the spec: "the two mates' intervals overlap (share at least 1 position)"
  and "one mate's interval is a strict subset of the other's", the interval of a mate
  being the half-open \<open>[offset, offset + length)\<close>.
\<close>

definition matesOverlap :: "int64_t \<Rightarrow> uint32_t \<Rightarrow> int64_t \<Rightarrow> uint32_t \<Rightarrow> bool" where
  "matesOverlap off1 len1 off2 len2 =
     ({sint off1 ..< sint off1 + uint len1} \<inter> {sint off2 ..< sint off2 + uint len2} \<noteq> {})"

definition mateContained :: "int64_t \<Rightarrow> uint32_t \<Rightarrow> int64_t \<Rightarrow> uint32_t \<Rightarrow> bool" where
  "mateContained off1 len1 off2 len2 =
     ({sint off1 ..< sint off1 + uint len1} \<subset> {sint off2 ..< sint off2 + uint len2}
      \<or> {sint off2 ..< sint off2 + uint len2} \<subset> {sint off1 ..< sint off1 + uint len1})"

text \<open>
  Modelled from the spec: the classification itself. The expected direction of the other
  mate is asked of \<open>pePolicyMateDir\<close> for mate 1 and its strand; it is looked up before
  the three steps so that an unrecognised policy (the one of an unset instance) fails, as
  the spec demands of any call on it. Then: (1) strands outside the accepted pattern are
  discordant; (2) a fragment length below the minimum or above the effective maximum is
  discordant; (3) mate 1 is expected left when the other mate is not, and actually left
  when \<open>offset1 \<le> offset2\<close>; a wrong order is a dovetail if the mates overlap and
  discordant otherwise; a right order is a containment, an overlap or normal.
\<close>

definition peClassifyPair ::
    "PairedEndPolicy \<Rightarrow> int64_t \<Rightarrow> uint32_t \<Rightarrow> bool \<Rightarrow> int64_t \<Rightarrow> uint32_t \<Rightarrow> bool
       \<Rightarrow> error + c_int" where
  "peClassifyPair p off1 len1 fw1 off2 len2 fw2 =
     (case pePolicyMateDir (m_pol p) True fw1 of
        Inl e \<Rightarrow> Inl e
      | Inr (left, mfw) \<Rightarrow>
          if \<not> strandsAccepted (m_pol p) fw1 fw2 then Inr PE_ALS_DISCORD
          else if fragLen off1 len1 off2 len2 < uint (m_minfrag p)
                  \<or> fragLen off1 len1 off2 len2 > effectiveMax p len1 len2
          then Inr PE_ALS_DISCORD
          else if (\<not> left) \<noteq> (sint off1 \<le> sint off2)
          then (if matesOverlap off1 len1 off2 len2 then Inr PE_ALS_DOVETAIL
                else Inr PE_ALS_DISCORD)
          else if mateContained off1 len1 off2 len2 then Inr PE_ALS_CONTAIN
          else if matesOverlap off1 len1 off2 len2 then Inr PE_ALS_OVERLAP
          else Inr PE_ALS_NORMAL)"

section \<open>Properties of the policy tables\<close>

lemmas pe_policy_defs = PE_POLICY_FF_def PE_POLICY_RR_def PE_POLICY_FR_def PE_POLICY_RF_def

text \<open>
  C2. For every assignment of \<open>oneLeft\<close>, \<open>oneWat\<close> and \<open>twoWat\<close>,
  \<open>pePolicyCompat\<close> returns the four-row table: for FF, the strands are equal and
  mate 1 is Watson exactly when it is left; for RR, the strands are equal and mate 1 is
  Watson exactly when it is not left; for FR and RF the same with differing strands.
\<close>

theorem pePolicyCompat_table:
  "pePolicyCompat PE_POLICY_FF oneLeft oneWat twoWat
     = Inr ((oneWat = twoWat) \<and> (oneWat = oneLeft)) \<and>
   pePolicyCompat PE_POLICY_RR oneLeft oneWat twoWat
     = Inr ((oneWat = twoWat) \<and> (oneWat \<noteq> oneLeft)) \<and>
   pePolicyCompat PE_POLICY_FR oneLeft oneWat twoWat
     = Inr ((oneWat \<noteq> twoWat) \<and> (oneWat = oneLeft)) \<and>
   pePolicyCompat PE_POLICY_RF oneLeft oneWat twoWat
     = Inr ((oneWat \<noteq> twoWat) \<and> (oneWat \<noteq> oneLeft))"
  by (simp add: pePolicyCompat_def pe_policy_defs)

text \<open>
  C3. For every assignment of \<open>is1\<close> and \<open>fw\<close>, \<open>pePolicyMateDir\<close> sets
  \<open>(left, mfw)\<close> per the table: for FF, \<open>left = (is1 \<noteq> fw)\<close> and \<open>mfw = fw\<close>;
  for RR, \<open>left = (is1 = fw)\<close> and \<open>mfw = fw\<close>; for FR, both are \<open>\<not> fw\<close>; for RF,
  \<open>left = fw\<close> and \<open>mfw = (\<not> fw)\<close>.
\<close>

theorem pePolicyMateDir_table:
  "pePolicyMateDir PE_POLICY_FF is1 fw = Inr (is1 \<noteq> fw, fw) \<and>
   pePolicyMateDir PE_POLICY_RR is1 fw = Inr (is1 = fw, fw) \<and>
   pePolicyMateDir PE_POLICY_FR is1 fw = Inr (\<not> fw, \<not> fw) \<and>
   pePolicyMateDir PE_POLICY_RF is1 fw = Inr (fw, \<not> fw)"
  by (simp add: pePolicyMateDir_def pe_policy_defs)

text \<open>
  C1. For each of the four policies and every \<open>oneLeft\<close>, \<open>oneWat\<close>,
  \<open>twoWat\<close>: \<open>pePolicyCompat\<close> returns normally, and the boolean it returns is
  true exactly when \<open>pePolicyMateDir\<close>, anchored at mate 1 on strand \<open>oneWat\<close>,
  sets \<open>left\<close> to \<open>\<not> oneLeft\<close> and \<open>mfw\<close> to \<open>twoWat\<close>.
\<close>

theorem pePolicyCompat_agrees_MateDir:
  assumes "pol \<in> {PE_POLICY_FF, PE_POLICY_RR, PE_POLICY_FR, PE_POLICY_RF}"
  shows "pePolicyCompat pol oneLeft oneWat twoWat
           = Inr (pePolicyMateDir pol True oneWat = Inr (\<not> oneLeft, twoWat))"
proof -
  from assms consider "pol = PE_POLICY_FF" | "pol = PE_POLICY_RR"
    | "pol = PE_POLICY_FR" | "pol = PE_POLICY_RF"
    by blast
  then show ?thesis
  proof cases
    case 1
    then show ?thesis
      by (auto simp add: pePolicyCompat_def pePolicyMateDir_def)
  next
    case 2
    then show ?thesis
      by (auto simp add: pePolicyCompat_def pePolicyMateDir_def pe_policy_defs)
  next
    case 3
    then show ?thesis
      by (auto simp add: pePolicyCompat_def pePolicyMateDir_def pe_policy_defs)
  next
    case 4
    then show ?thesis
      by (auto simp add: pePolicyCompat_def pePolicyMateDir_def pe_policy_defs)
  qed
qed

theorem pePolicyCompat_agrees_MateDir_witness:
  "PE_POLICY_FR \<in> {PE_POLICY_FF, PE_POLICY_RR, PE_POLICY_FR, PE_POLICY_RF} \<and>
   pePolicyCompat PE_POLICY_FR True True False = Inr True \<and>
   pePolicyMateDir PE_POLICY_FR True True = Inr (False, False) \<and>
   pePolicyCompat PE_POLICY_FR False True False = Inr False"
  using pePolicyCompat_agrees_MateDir [of PE_POLICY_FR True True False]
    pePolicyCompat_agrees_MateDir [of PE_POLICY_FR False True False]
  by (simp add: pePolicyMateDir_def pe_policy_defs)

text \<open>
  C4. For every policy value other than the four policies, \<open>pePolicyCompat\<close> and
  \<open>pePolicyMateDir\<close> throw (the integer 1) for every assignment of their boolean
  arguments, and the policy that \<open>reset\<close> installs, \<open>-1\<close>, is such a value.
\<close>

theorem bad_policy_throws:
  "(pol \<notin> {PE_POLICY_FF, PE_POLICY_RR, PE_POLICY_FR, PE_POLICY_RF} \<longrightarrow>
      pePolicyCompat pol oneLeft oneWat twoWat = Inl (Thrown 1) \<and>
      pePolicyMateDir pol is1 fw = Inl (Thrown 1)) \<and>
   policy PairedEndPolicy_reset = - 1 \<and>
   pePolicyCompat (policy PairedEndPolicy_reset) oneLeft oneWat twoWat = Inl (Thrown 1) \<and>
   pePolicyMateDir (policy PairedEndPolicy_reset) is1 fw = Inl (Thrown 1)"
  by (simp add: pePolicyCompat_def pePolicyMateDir_def pe_policy_defs
      policy_def PairedEndPolicy_reset_def PairedEndPolicy_init_def)

theorem bad_policy_throws_witness:
  "(0::c_int) \<notin> {PE_POLICY_FF, PE_POLICY_RR, PE_POLICY_FR, PE_POLICY_RF} \<and>
   pePolicyCompat 0 True False True = Inl (Thrown 1) \<and>
   pePolicyMateDir 0 False True = Inl (Thrown 1)"
  using bad_policy_throws [of 0 True False True False True]
  by (simp add: pe_policy_defs)

section \<open>Properties of Coord and Interval\<close>

lemmas pe_als_defs =
  PE_ALS_NORMAL_def PE_ALS_OVERLAP_def PE_ALS_CONTAIN_def PE_ALS_DOVETAIL_def PE_ALS_DISCORD_def

lemmas sentinel_defs = TRefId_max_def TRefOff_max_def

lemma c_assert_passes: "c_assert asserts (Inr True) rest = rest"
  by (simp add: c_assert_def)

lemma Coord_init_orient:
  "m_orient (Coord_init rf of' fw) = 0 \<or> m_orient (Coord_init rf of' fw) = 1"
  by (simp add: Coord_init_def)

text \<open>An \<open>int64_t\<close> addition of a positive length that stays representable does not wrap.\<close>

lemma sint_add_positive:
  fixes a b :: int64_t
  assumes "0 <s b" and "sint a + sint b \<le> 2 ^ 63 - 1"
  shows "sint (a + b) = sint a + sint b"
proof -
  have lower: "- (2 ^ 63) \<le> sint a"
    using sint_ge [of a] by simp
  have positive: "0 < sint b"
    using assms(1) by (simp add: word_sless_alt)
  from lower positive assms(2) show ?thesis
    by (simp add: sint_word_ariths signed_take_bit_int_eq_self)
qed

text \<open>
  C5, as amended. For every Coord with offset \<open>off\<close> and all \<open>len\<close>, \<open>begin\<close>,
  \<open>end\<close> with \<open>len > 0\<close> (and \<open>off + len\<close> representable in \<open>int64_t\<close>):
  \<open>within(len, begin, end)\<close> is true exactly when the half-open set
  \<open>[off, off + len)\<close> is a subset of \<open>[begin, end)\<close>.
\<close>

theorem Coord_within_subset:
  assumes "0 <s len" and "sint (m_off c) + sint len \<le> 2 ^ 63 - 1"
  shows "Coord_within c len inbegin inend \<longleftrightarrow>
           {sint (m_off c) ..< sint (m_off c) + sint len} \<subseteq> {sint inbegin ..< sint inend}"
proof -
  have positive: "0 < sint len"
    using assms(1) by (simp add: word_sless_alt)
  have "sint (m_off c + len) = sint (m_off c) + sint len"
    using assms by (rule sint_add_positive)
  with positive show ?thesis
    by (auto simp add: Coord_within_def word_sle_eq atLeastLessThan_subset_iff)
qed

theorem Coord_within_subset_witness:
  "0 <s (10 :: int64_t) \<and>
   sint (m_off (Coord_init 0 5 True)) + sint (10 :: int64_t) \<le> 2 ^ 63 - 1 \<and>
   Coord_within (Coord_init 0 5 True) 10 0 20 \<and>
   {sint (m_off (Coord_init 0 5 True)) ..< sint (m_off (Coord_init 0 5 True)) + sint (10 :: int64_t)}
     \<subseteq> {sint (0 :: int64_t) ..< sint (20 :: int64_t)}"
  using Coord_within_subset [of 10 "Coord_init 0 5 True" 0 20]
  by (simp add: Coord_within_def Coord_init_def word_sless_alt word_sle_eq)

text \<open>
  C5 as stated fails at the degenerate length: the Coord at offset 5 with \<open>len = 0\<close> is
  not within \<open>[10, 20)\<close>, although the empty set \<open>[5, 5)\<close> is a subset of it.
\<close>

theorem Coord_within_empty_counterexample:
  "\<not> (Coord_within (Coord_init 0 5 True) 0 10 20 \<longleftrightarrow>
        {sint (m_off (Coord_init 0 5 True))
           ..< sint (m_off (Coord_init 0 5 True)) + sint (0 :: int64_t)}
          \<subseteq> {sint (10 :: int64_t) ..< sint (20 :: int64_t)})"
  by (simp add: Coord_within_def Coord_init_def)

text \<open>
  C6. \<open>Interval(0, 0, 5, 5)\<close> is constructed without failure in every build; its
  upstream Coord is valid and its length is 0. On it \<open>valid()\<close> returns true when
  assertions are compiled out, and stops at its own \<open>assert_gt(len_, 0)\<close> when they are
  compiled in: the constructor does not establish what \<open>valid()\<close> asserts.
\<close>

theorem Interval_of_offsets_zero_length:
  "Interval_of_offsets asserts 0 0 5 5
     = Inr \<lparr> m_upstream = \<lparr> m_ref = 0, m_off = 5, m_orient = 1 \<rparr>, m_len = 0 \<rparr> \<and>
   Coord_valid asserts \<lparr> m_ref = 0, m_off = 5, m_orient = 1 \<rparr> = Inr True \<and>
   Interval_valid False \<lparr> m_upstream = \<lparr> m_ref = 0, m_off = 5, m_orient = 1 \<rparr>, m_len = 0 \<rparr>
     = Inr True \<and>
   Interval_valid True \<lparr> m_upstream = \<lparr> m_ref = 0, m_off = 5, m_orient = 1 \<rparr>, m_len = 0 \<rparr>
     = Inl AssertionFailed"
  by (simp add: Interval_of_offsets_def Interval_valid_def Interval_init_def Coord_init_def
      Coord_valid_def c_assert_def std_min_def std_max_def sentinel_defs)

text \<open>\<open>std::min\<close> and \<open>std::max\<close> read as integers, and a subtraction that does not wrap.\<close>

lemma sint_std_min: "sint (std_min a b) = min (sint a) (sint b)"
  by (simp add: std_min_def word_sless_alt min_def)

lemma sint_std_max: "sint (std_max a b) = max (sint a) (sint b)"
  by (simp add: std_max_def word_sless_alt max_def)

lemma sint_sub_representable:
  fixes a b :: int64_t
  assumes "sint b \<le> sint a" and "sint a - sint b \<le> 2 ^ 63 - 1"
  shows "sint (a - b) = sint a - sint b"
  using assms by (simp add: sint_word_ariths signed_take_bit_int_eq_self)

text \<open>
  C7, as amended. For \<open>id1 \<noteq> id2\<close> and every choice of offsets: in a build with
  assertions compiled in, \<open>Interval(id1, id2, off1, off2)\<close> fails at
  \<open>assert_eq(id1, id2)\<close>; with assertions compiled out it returns the Interval whose
  upstream Coord is reference \<open>id1\<close>, offset \<open>min(off1, off2)\<close>, on Watson, and whose
  length is \<open>max(off1, off2) - min(off1, off2)\<close> computed in \<open>int64_t\<close>, which is the
  difference of the integers whenever that difference is at most \<open>2^63 - 1\<close> (and wraps
  around otherwise).
\<close>

theorem Interval_of_offsets_ids_differ:
  assumes "id1 \<noteq> id2"
  shows "Interval_of_offsets True id1 id2 off1 off2 = Inl AssertionFailed \<and>
         Interval_of_offsets False id1 id2 off1 off2
           = Inr \<lparr> m_upstream = \<lparr> m_ref = id1, m_off = std_min off1 off2, m_orient = 1 \<rparr>,
                   m_len = std_max off1 off2 - std_min off1 off2 \<rparr> \<and>
         sint (std_min off1 off2) = min (sint off1) (sint off2) \<and>
         sint (std_max off1 off2) = max (sint off1) (sint off2) \<and>
         (max (sint off1) (sint off2) - min (sint off1) (sint off2) \<le> 2 ^ 63 - 1 \<longrightarrow>
            sint (std_max off1 off2 - std_min off1 off2)
              = max (sint off1) (sint off2) - min (sint off1) (sint off2))"
proof -
  have enabled: "Interval_of_offsets True id1 id2 off1 off2 = Inl AssertionFailed"
    using assms by (simp add: Interval_of_offsets_def c_assert_def)
  have disabled: "Interval_of_offsets False id1 id2 off1 off2
           = Inr \<lparr> m_upstream = \<lparr> m_ref = id1, m_off = std_min off1 off2, m_orient = 1 \<rparr>,
                   m_len = std_max off1 off2 - std_min off1 off2 \<rparr>"
    by (simp add: Interval_of_offsets_def c_assert_def Interval_init_def Coord_init_def Let_def)
  have len: "sint (std_max off1 off2 - std_min off1 off2)
              = max (sint off1) (sint off2) - min (sint off1) (sint off2)"
    if "max (sint off1) (sint off2) - min (sint off1) (sint off2) \<le> 2 ^ 63 - 1"
  proof -
    have "sint (std_min off1 off2) \<le> sint (std_max off1 off2)"
      by (simp add: sint_std_min sint_std_max)
    moreover have "sint (std_max off1 off2) - sint (std_min off1 off2) \<le> 2 ^ 63 - 1"
      using that by (simp add: sint_std_min sint_std_max)
    ultimately have "sint (std_max off1 off2 - std_min off1 off2)
        = sint (std_max off1 off2) - sint (std_min off1 off2)"
      by (rule sint_sub_representable)
    then show ?thesis
      by (simp add: sint_std_min sint_std_max)
  qed
  from enabled disabled len show ?thesis
    by (simp add: sint_std_min sint_std_max)
qed

theorem Interval_of_offsets_ids_differ_witness:
  "(1 :: TRefId) \<noteq> 2 \<and>
   Interval_of_offsets True 1 2 7 3 = Inl AssertionFailed \<and>
   Interval_of_offsets False 1 2 7 3
     = Inr \<lparr> m_upstream = \<lparr> m_ref = 1, m_off = 3, m_orient = 1 \<rparr>, m_len = 4 \<rparr> \<and>
   max (sint (7 :: int64_t)) (sint (3 :: int64_t)) - min (sint (7 :: int64_t)) (sint (3 :: int64_t))
     \<le> 2 ^ 63 - 1 \<and>
   sint (std_max (7 :: int64_t) 3 - std_min 7 3) = 4"
  using Interval_of_offsets_ids_differ [of 1 2 7 3]
  by (simp add: std_min_def std_max_def)

text \<open>
  C7 as stated fails when assertions are compiled out: \<open>Interval(1, 2, 3, 7)\<close> returns
  the interval of length 4 whose upstream Coord is offset 3 of reference 1, on Watson.
\<close>

theorem Interval_of_offsets_ids_differ_counterexample:
  "(1 :: TRefId) \<noteq> 2 \<and>
   Interval_of_offsets False 1 2 3 7
     = Inr \<lparr> m_upstream = \<lparr> m_ref = 1, m_off = 3, m_orient = 1 \<rparr>, m_len = 4 \<rparr>"
  by (simp add: Interval_of_offsets_def Interval_init_def Coord_init_def c_assert_def
      std_min_def std_max_def)

text \<open>
  C8. For valid Coords \<open>a\<close> and \<open>b\<close> (their orientation being 0 or 1, as \<open>init\<close>
  leaves it), \<open>a < b\<close> returns normally, and returns true exactly when
  \<open>a.ref < b.ref\<close>, or the references are equal and \<open>a.off < b.off\<close>, or references
  and offsets are equal and \<open>a\<close> is on Crick while \<open>b\<close> is on Watson.
\<close>

theorem Coord_less_lexicographic:
  assumes va: "Coord_valid asserts a = Inr True" and vb: "Coord_valid asserts b = Inr True"
    and oa: "m_orient a = 0 \<or> m_orient a = 1" and ob: "m_orient b = 0 \<or> m_orient b = 1"
  shows "Coord_less asserts a b =
           Inr (m_ref a < m_ref b
                \<or> (m_ref a = m_ref b \<and> m_off a <s m_off b)
                \<or> (m_ref a = m_ref b \<and> m_off a = m_off b
                    \<and> Coord_fw asserts a = Inr False \<and> Coord_fw asserts b = Inr True))"
proof -
  have fa: "Coord_fw asserts a = Inr (m_orient a = 1)"
    using va oa by (auto simp add: Coord_fw_def c_assert_passes)
  have fb: "Coord_fw asserts b = Inr (m_orient b = 1)"
    using vb ob by (auto simp add: Coord_fw_def c_assert_passes)
  have orient: "m_orient a <s m_orient b \<longleftrightarrow> m_orient a \<noteq> 1 \<and> m_orient b = 1"
    using oa ob by (auto simp add: word_sless_alt)
  have offs: "m_off a = m_off b" if "\<not> m_off a <s m_off b" and "\<not> m_off b <s m_off a"
    using that signed.less_linear [of "m_off a" "m_off b"] by blast
  have "Coord_less asserts a b =
      (if m_ref a < m_ref b then Inr True
       else if m_ref a > m_ref b then Inr False
       else if m_off a <s m_off b then Inr True
       else if m_off b <s m_off a then Inr False
       else if m_orient a <s m_orient b then Inr True
       else Inr False)"
    by (simp add: Coord_less_def va vb c_assert_passes)
  then show ?thesis
    using offs by (auto simp add: fa fb orient)
qed

theorem Coord_less_lexicographic_witness:
  "Coord_valid True (Coord_init 3 7 False) = Inr True \<and>
   Coord_valid True (Coord_init 3 7 True) = Inr True \<and>
   (m_orient (Coord_init 3 7 False) = 0 \<or> m_orient (Coord_init 3 7 False) = 1) \<and>
   (m_orient (Coord_init 3 7 True) = 0 \<or> m_orient (Coord_init 3 7 True) = 1) \<and>
   Coord_less True (Coord_init 3 7 False) (Coord_init 3 7 True) = Inr True \<and>
   Coord_less True (Coord_init 3 7 True) (Coord_init 3 7 False) = Inr False"
  using Coord_less_lexicographic [of True "Coord_init 3 7 False" "Coord_init 3 7 True"]
    Coord_less_lexicographic [of True "Coord_init 3 7 True" "Coord_init 3 7 False"]
  by (simp add: Coord_valid_def Coord_init_def Coord_fw_def c_assert_def sentinel_defs)

text \<open>
  C10, as amended. The sentinels are \<open>2^64 - 1\<close> and \<open>2^63 - 1\<close>. \<open>valid()\<close> on a
  Coord made by \<open>init(rf, of, fw)\<close> returns true exactly when \<open>rf\<close> and \<open>of\<close> are both
  not the sentinel, and on an invalidated Coord it returns false; so a Coord initialised
  with a sentinel is reported invalid by \<open>valid()\<close>, which gives it the same answer as an
  invalidated one. With assertions compiled out the same equivalence holds of any field
  values.
\<close>

theorem Coord_valid_sentinels:
  "uint TRefId_max = 2 ^ 64 - 1 \<and> sint TRefOff_max = 2 ^ 63 - 1 \<and>
   Coord_valid asserts (Coord_init rf of' fw) = Inr (rf \<noteq> TRefId_max \<and> of' \<noteq> TRefOff_max) \<and>
   Coord_valid asserts Coord_invalidate = Inr False \<and>
   (rf = TRefId_max \<or> of' = TRefOff_max \<longrightarrow>
      Coord_valid asserts (Coord_init rf of' fw) = Coord_valid asserts Coord_invalidate) \<and>
   Coord_valid False c = Inr (m_ref c \<noteq> TRefId_max \<and> m_off c \<noteq> TRefOff_max)"
  by (auto simp add: Coord_valid_def Coord_init_def Coord_invalidate_def c_assert_def
      sentinel_defs)

theorem Coord_valid_sentinels_witness:
  "(TRefId_max = TRefId_max \<or> (5 :: TRefOff) = TRefOff_max) \<and>
   Coord_valid True (Coord_init TRefId_max 5 True) = Inr False \<and>
   Coord_valid True (Coord_init 4 TRefOff_max False) = Inr False \<and>
   Coord_valid True (Coord_init 4 5 False) = Inr True \<and>
   Coord_valid True Coord_invalidate = Inr False"
  using Coord_valid_sentinels [of True TRefId_max 5 True]
    Coord_valid_sentinels [of True 4 TRefOff_max False]
    Coord_valid_sentinels [of True 4 5 False]
  by (simp add: sentinel_defs)

text \<open>
  C10 as stated fails in its last clause: a Coord initialised with a sentinel is not
  indistinguishable from an invalidated one. \<open>valid()\<close> answers alike in both builds,
  but \<open>init(2^64 - 1, 5, true)\<close> has \<open>off() = 5\<close> and is within \<open>[0, 10)\<close> at length
  0, unlike the invalidated Coord, and \<open>init(4, 2^63 - 1, true)\<close> has \<open>ref() = 4\<close>.
\<close>

theorem Coord_sentinel_init_counterexample:
  "Coord_valid False (Coord_init TRefId_max 5 True) = Coord_valid False Coord_invalidate \<and>
   Coord_valid True (Coord_init TRefId_max 5 True) = Coord_valid True Coord_invalidate \<and>
   Coord_off (Coord_init TRefId_max 5 True) \<noteq> Coord_off Coord_invalidate \<and>
   Coord_within (Coord_init TRefId_max 5 True) 0 0 10 \<noteq> Coord_within Coord_invalidate 0 0 10 \<and>
   Coord_ref (Coord_init 4 TRefOff_max True) \<noteq> Coord_ref Coord_invalidate"
  by (simp add: Coord_valid_def Coord_init_def Coord_invalidate_def Coord_off_def Coord_ref_def
      Coord_within_def sentinel_defs word_sle_eq)

section \<open>Properties of the pair classification\<close>

lemma pePolicyCompat_MateDir:
  assumes "pol \<in> {PE_POLICY_FF, PE_POLICY_RR, PE_POLICY_FR, PE_POLICY_RF}"
  shows "pePolicyCompat pol oneLeft oneWat twoWat
           = Inr (pePolicyMateDir pol True oneWat = Inr (\<not> oneLeft, twoWat))"
  using assms by (auto simp add: pePolicyCompat_def pePolicyMateDir_def pe_policy_defs)

text \<open>
  C9. For every policy configuration with \<open>minFragLen \<le> maxFragLen\<close> and
  \<open>expandToFit\<close> off, and every pair whose strands and left/right order (mate 1 left when
  \<open>off1 \<le> off2\<close>) satisfy the policy: when the fragment length equals \<open>minFragLen\<close> or
  \<open>maxFragLen\<close> the pair is classified normal, overlap or contain, never discordant; when
  it equals \<open>minFragLen - 1\<close> or \<open>maxFragLen + 1\<close> the pair is classified discordant.
\<close>

theorem peClassifyPair_fragment_bounds:
  assumes nofit: "\<not> m_expandToFit p"
    and le: "m_minfrag p \<le> m_maxfrag p"
    and compat: "pePolicyCompat (m_pol p) (sint off1 \<le> sint off2) fw1 fw2 = Inr True"
  shows "(fragLen off1 len1 off2 len2 = uint (m_minfrag p)
            \<or> fragLen off1 len1 off2 len2 = uint (m_maxfrag p)
          \<longrightarrow> peClassifyPair p off1 len1 fw1 off2 len2 fw2
                \<in> {Inr PE_ALS_NORMAL, Inr PE_ALS_OVERLAP, Inr PE_ALS_CONTAIN}) \<and>
         (fragLen off1 len1 off2 len2 = uint (m_minfrag p) - 1
            \<or> fragLen off1 len1 off2 len2 = uint (m_maxfrag p) + 1
          \<longrightarrow> peClassifyPair p off1 len1 fw1 off2 len2 fw2 = Inr PE_ALS_DISCORD)"
proof -
  have pol: "m_pol p \<in> {PE_POLICY_FF, PE_POLICY_RR, PE_POLICY_FR, PE_POLICY_RF}"
    using compat by (auto simp add: pePolicyCompat_def split: if_splits)
  have dir: "pePolicyMateDir (m_pol p) True fw1 = Inr (\<not> (sint off1 \<le> sint off2), fw2)"
    using compat pePolicyCompat_MateDir [OF pol] by simp
  have strands: "strandsAccepted (m_pol p) fw1 fw2"
    using compat
    by (auto simp add: pePolicyCompat_def strandsAccepted_def pe_policy_defs split: if_splits)
  have bounds: "uint (m_minfrag p) \<le> uint (m_maxfrag p)"
    using le by (simp add: word_le_def)
  have eff: "effectiveMax p len1 len2 = uint (m_maxfrag p)"
    using nofit by (simp add: effectiveMax_def)
  show ?thesis
    using bounds by (auto simp add: peClassifyPair_def dir strands eff)
qed

theorem peClassifyPair_fragment_bounds_witness:
  "\<not> m_expandToFit (PairedEndPolicy_init PE_POLICY_FR 200 100 False False False False False) \<and>
   m_minfrag (PairedEndPolicy_init PE_POLICY_FR 200 100 False False False False False)
     \<le> m_maxfrag (PairedEndPolicy_init PE_POLICY_FR 200 100 False False False False False) \<and>
   pePolicyCompat PE_POLICY_FR (sint (0 :: int64_t) \<le> sint (50 :: int64_t)) True False = Inr True \<and>
   fragLen 0 50 50 50 = 100 \<and>
   peClassifyPair (PairedEndPolicy_init PE_POLICY_FR 200 100 False False False False False)
     0 50 True 50 50 False = Inr PE_ALS_NORMAL \<and>
   fragLen 0 50 49 50 = 99 \<and>
   peClassifyPair (PairedEndPolicy_init PE_POLICY_FR 200 100 False False False False False)
     0 50 True 49 50 False = Inr PE_ALS_DISCORD"
  using peClassifyPair_fragment_bounds
      [of "PairedEndPolicy_init PE_POLICY_FR 200 100 False False False False False"
          0 50 True False 50 50]
    peClassifyPair_fragment_bounds
      [of "PairedEndPolicy_init PE_POLICY_FR 200 100 False False False False False"
          0 49 True False 50 50]
  by (simp add: peClassifyPair_def PairedEndPolicy_init_def pePolicyCompat_def
      pePolicyMateDir_def pe_policy_defs pe_als_defs strandsAccepted_def fragLen_def
      effectiveMax_def matesOverlap_def mateContained_def subset_not_subset_eq
      atLeastLessThan_subset_iff)

end
